theory Spec2Isabelle
  imports Main "HOL-Library.Word"
begin

section \<open>The transaction service of terra.go\<close>

text \<open>
  The service (package \<open>service\<close>) has four methods. Each builds an
  \<open>httpclient.RequestPayload\<close>, hands it to \<open>client.RequestJSON\<close> together with a
  pointer to a zero-initialised response variable, and returns that variable or a wrapped
  error. The HTTP client and the amino codec are interfaces implemented elsewhere; they are
  parameters of the model:
  \<^item> \<open>rj payload c\<close> is the client's \<open>RequestJSON\<close>: from the payload and the client's
    own state \<open>c\<close> it yields the client's next state and either an error (\<open>Inl\<close>) or the
    value it decoded into the response variable (\<open>Inr\<close>);
  \<^item> \<open>marshal req\<close> is the codec's \<open>MarshalJSON\<close>: an error or the encoded bytes.
  Go's \<open>(value, error)\<close> results are pairs whose second component is \<open>None\<close> for a nil
  error. What a method does besides returning (calls of the client, the pause, writes into
  a map the caller shares) is recorded in an explicit world that is passed through.
\<close>

subsection \<open>Values of the Go runtime\<close>

text \<open>A \<open>[]byte\<close> is a list of \<open>char\<close>, the 8-bit characters of HOL.\<close>

type_synonym int64 = "64 word"
type_synonym uint64 = "64 word"
type_synonym uint32 = "32 word"
type_synonym bytes = string

text \<open>
  Errors as the source builds them with \<open>github.com/pkg/errors\<close>: \<open>errors.New msg\<close>, and
  \<open>errors.Wrap err msg\<close> around an error \<open>err\<close> of a collaborator. \<open>Error\<close> is
  the message (\<open>err.Error()\<close>); \<open>cause\<close> gives the message of a collaborator's error.
\<close>

datatype 'e error = New string | Wrap 'e string

fun Error :: "('e \<Rightarrow> string) \<Rightarrow> 'e error \<Rightarrow> string" where
  "Error cause (New msg) = msg"
| "Error cause (Wrap err msg) = msg @ '': '' @ cause err"

text \<open>A run-time panic; the only one the source can raise itself.\<close>

datatype panic = AssignmentToEntryInNilMap

text \<open>
  Modelled from the spec: \<open>types.Q\<close>, the "query filter", is declared in the package
  \<open>types\<close> of this repository, which is not among the sources. \<open>QueryTx\<close> stores
  \<open>int64\<close> values under string keys in it and formats each of its values with \<open>%v\<close>, so
  it is a Go map from strings to dynamically typed values. A value is an \<open>int64\<close>, a
  string, or anything else (\<open>Other\<close>, whose \<open>%v\<close> rendering is the parameter \<open>fo\<close> of
  \<open>Sprintf_v\<close>).
\<close>

datatype 'a iface = Int64 int64 | Str string | Other 'a

definition digit :: "nat \<Rightarrow> char" where
  "digit d = ''0123456789'' ! d"

function FormatUint :: "nat \<Rightarrow> string" where
  "FormatUint n = (if n < 10 then [digit n] else FormatUint (n div 10) @ [digit (n mod 10)])"
  by pat_completeness auto
termination
  by (relation "measure (\<lambda>n. n)") auto

declare FormatUint.simps [simp del]

definition FormatInt :: "int \<Rightarrow> string" where
  "FormatInt i = (if i < 0 then CHR ''-'' # FormatUint (nat (- i)) else FormatUint (nat i))"

text \<open>\<open>fmt.Sprintf("%v", v)\<close>: a signed decimal for an \<open>int64\<close>, a string as it is.\<close>

fun Sprintf_v :: "('a \<Rightarrow> string) \<Rightarrow> 'a iface \<Rightarrow> string" where
  "Sprintf_v fo (Int64 n) = FormatInt (sint n)"
| "Sprintf_v fo (Str s) = s"
| "Sprintf_v fo (Other x) = fo x"

text \<open>
  A Go map is a reference: a \<open>types.Q\<close> value is nil (\<open>None\<close>) or the address of a map
  in the store \<open>qmaps\<close> of the world, which the caller and the callee share.
\<close>

type_synonym Q = "nat option"

subsection \<open>The HTTP client's payload and the world\<close>

text \<open>
  Modelled from the spec: \<open>httpclient.RequestPayload\<close> is declared in the package
  \<open>httpclient\<close> of this repository, which is not among the sources; the spec calls it
  the "HTTP request payload (method, path, query parameters or JSON body)". Its fields
  are the five the source sets. A field the source leaves unset holds Go's zero value:
  a nil map, a nil reader (\<open>None\<close>). \<open>Body\<close> holds the bytes \<open>bytes.NewReader\<close> was
  given.
\<close>

record 'ctx RequestPayload =
  Context :: 'ctx
  Method :: string
  Path :: string
  Query :: "(string \<rightharpoonup> string) option"
  Body :: "bytes option"

definition MethodGet :: string where
  "MethodGet = ''GET''"

definition MethodPost :: string where
  "MethodPost = ''POST''"

text \<open>\<open>time.Duration\<close> counts nanoseconds.\<close>

definition Second :: int where
  "Second = 1000000000"

text \<open>What a method does to its environment, in the order it does it.\<close>

datatype 'ctx event = Request "'ctx RequestPayload" | Sleep int

record ('c, 'ctx, 'a) world =
  client :: 'c
  qmaps :: "nat \<Rightarrow> (string \<rightharpoonup> 'a iface)"
  trace :: "'ctx event list"

text \<open>\<open>svc.client.RequestJSON(payload, &body)\<close>: one call of the client.\<close>

definition RequestJSON ::
  "('ctx RequestPayload \<Rightarrow> 'c \<Rightarrow> ('e + 'b) \<times> 'c) \<Rightarrow> 'ctx RequestPayload \<Rightarrow>
   ('c, 'ctx, 'a) world \<Rightarrow> ('e + 'b) \<times> ('c, 'ctx, 'a) world" where
  "RequestJSON rj payload w =
     (case rj payload (client w) of
        (r, c') \<Rightarrow> (r, w\<lparr>client := c', trace := trace w @ [Request payload]\<rparr>))"

text \<open>\<open>time.Sleep(d)\<close>.\<close>

definition time_Sleep :: "int \<Rightarrow> ('c, 'ctx, 'a) world \<Rightarrow> ('c, 'ctx, 'a) world" where
  "time_Sleep d w = w\<lparr>trace := trace w @ [Sleep d]\<rparr>"

text \<open>\<open>m[k] = v\<close> on a \<open>types.Q\<close>: a panic on the nil map, a write into the shared map otherwise.\<close>

fun mapassign :: "Q \<Rightarrow> string \<Rightarrow> 'a iface \<Rightarrow> ('c, 'ctx, 'a) world \<Rightarrow> panic + ('c, 'ctx, 'a) world" where
  "mapassign None k v w = Inl AssignmentToEntryInNilMap"
| "mapassign (Some a) k v w = Inr (w\<lparr>qmaps := (qmaps w)(a := (qmaps w a)(k \<mapsto> v))\<rparr>)"

text \<open>The entries a \<open>range\<close> over a \<open>types.Q\<close> visits: none for the nil map.\<close>

fun entries :: "Q \<Rightarrow> ('c, 'ctx, 'a) world \<Rightarrow> (string \<rightharpoonup> 'a iface)" where
  "entries None w = Map.empty"
| "entries (Some a) w = qmaps w a"

text \<open>
  The loop \<open>for k, v := range m { dst[k] = fmt.Sprintf("%v", v) }\<close> into a map \<open>dst\<close> of
  strings: every key of \<open>m\<close> is set in \<open>dst\<close>, the other keys of \<open>dst\<close> stay. The keys
  of a map are distinct, so the order of the visits does not matter.
\<close>

definition range_Sprintf ::
  "('a \<Rightarrow> string) \<Rightarrow> (string \<rightharpoonup> 'a iface) \<Rightarrow> (string \<rightharpoonup> string) \<Rightarrow> (string \<rightharpoonup> string)" where
  "range_Sprintf fo m dst = (\<lambda>k. case m k of None \<Rightarrow> dst k | Some v \<Rightarrow> Some (Sprintf_v fo v))"

subsection \<open>Types of the SDK\<close>

text \<open>
  \<open>cosmostypes.TxResponse\<close> belongs to the cosmos SDK. The source reads its fields
  \<open>Code\<close> (a \<open>uint32\<close>) and \<open>RawLog\<close>; all its other fields are carried in \<open>Others\<close>,
  whose zero value is \<open>0\<close>. \<open>abcitypes.CodeTypeOK\<close> is tendermint's constant \<open>0\<close>.
\<close>

record 'o TxResponse =
  Code :: uint32
  RawLog :: string
  Others :: 'o

definition TxResponse_zero :: "('o::zero) TxResponse" where
  "TxResponse_zero = \<lparr>Code = 0, RawLog = [], Others = 0\<rparr>"

definition CodeTypeOK :: uint32 where
  "CodeTypeOK = 0"

text \<open>
  \<open>cosmosauthrest.BroadcastReq\<close> of the cosmos SDK, whose \<open>Mode\<close> is a string.

  Modelled from the spec: \<open>types.BroadcastMode\<close> is declared in the package \<open>types\<close> of
  this repository, which is not among the sources. The source converts it with
  \<open>string(mode)\<close> and the spec calls it "a request parameter"; it is a string type, so the
  conversion changes nothing.
\<close>

record 'tx BroadcastReq =
  Tx :: 'tx
  Mode :: string

text \<open>\<open>rest.BaseReq\<close> and the fields of \<open>terraauth.StdSignMsg\<close>.\<close>

record ('coins, 'dc) BaseReq =
  From :: string
  Memo :: string
  ChainID :: string
  AccountNumber :: uint64
  Sequence :: uint64
  Fees :: 'coins
  GasPrices :: 'dc
  Gas :: string
  GasAdjustment :: string
  Simulate :: bool

record ('fee, 'msg) StdSignMsg =
  msg_ChainID :: string
  msg_AccountNumber :: uint64
  msg_Sequence :: uint64
  msg_Fee :: 'fee
  msg_Msgs :: "'msg list"
  msg_Memo :: string

text \<open>The request and response structs \<open>EstimateFee\<close> declares in place.\<close>

record ('coins, 'dc, 'msg) EstimateFeeReq =
  BaseReq :: "('coins, 'dc) BaseReq"
  Msgs :: "'msg list"

record 'fee EstimateFeeResult =
  Fee :: 'fee

record 'fee EstimateFeeBody =
  Height :: string
  Result :: "'fee EstimateFeeResult"

subsection \<open>transaction\_schema.go\<close>

text \<open>
  A pointer to an \<open>int64\<close> is nil or holds a value; the source only reads through it.
  \<open>cosmostypes.Int\<close> wraps a pointer to a big integer, nil in its zero value.
\<close>

record QueryTxRequest =
  Page :: "int64 option"
  Limit :: "int64 option"
  req_Query :: Q

record 'o QueryTxResponse =
  TotalCount :: "int option"
  Count :: "int option"
  PageNumber :: "int option"
  PageTotal :: "int option"
  resp_Limit :: "int option"
  Txs :: "'o TxResponse list"

definition QueryTxResponse_zero :: "'o QueryTxResponse" where
  "QueryTxResponse_zero =
     \<lparr>TotalCount = None, Count = None, PageNumber = None, PageTotal = None,
      resp_Limit = None, Txs = []\<rparr>"

subsection \<open>The four methods\<close>

definition GetTxByHash ::
  "('ctx RequestPayload \<Rightarrow> 'c \<Rightarrow> ('e + ('o::zero) TxResponse) \<times> 'c) \<Rightarrow> 'ctx \<Rightarrow> string \<Rightarrow>
   ('c, 'ctx, 'a) world \<Rightarrow> ('o TxResponse \<times> 'e error option) \<times> ('c, 'ctx, 'a) world" where
  "GetTxByHash rj ctx txHash w =
     (let payload = \<lparr>Context = ctx, Method = MethodGet, Path = ''/txs/'' @ txHash,
                     Query = None, Body = None\<rparr>
      in case RequestJSON rj payload w of
           (Inl err, w') \<Rightarrow> ((TxResponse_zero, Some (Wrap err ''request json'')), w')
         | (Inr body, w') \<Rightarrow> ((body, None), w'))"

definition QueryTx ::
  "('ctx RequestPayload \<Rightarrow> 'c \<Rightarrow> ('e + 'o QueryTxResponse) \<times> 'c) \<Rightarrow> ('a \<Rightarrow> string) \<Rightarrow> 'ctx \<Rightarrow>
   QueryTxRequest \<Rightarrow> ('c, 'ctx, 'a) world \<Rightarrow>
   (panic + 'o QueryTxResponse \<times> 'e error option) \<times> ('c, 'ctx, 'a) world" where
  "QueryTx rj fo ctx req w =
     (let made = Map.empty
      in case (case Page req of None \<Rightarrow> Inr w
               | Some page \<Rightarrow> mapassign (req_Query req) ''page'' (Int64 page) w) of
           Inl p \<Rightarrow> (Inl p, w)
         | Inr w1 \<Rightarrow>
             (case (case Limit req of None \<Rightarrow> Inr w1
                    | Some limit \<Rightarrow> mapassign (req_Query req) ''limit'' (Int64 limit) w1) of
                Inl p \<Rightarrow> (Inl p, w1)
              | Inr w2 \<Rightarrow>
                  (let payload = \<lparr>Context = ctx, Method = MethodGet, Path = ''/txs'',
                                  Query = Some (range_Sprintf fo (entries (req_Query req) w2) made),
                                  Body = None\<rparr>
                   in case RequestJSON rj payload w2 of
                        (Inl err, w3) \<Rightarrow>
                          (Inr (QueryTxResponse_zero, Some (Wrap err ''request json'')), w3)
                      | (Inr body, w3) \<Rightarrow> (Inr (body, None), w3))))"

definition BroadcastTx ::
  "('tx BroadcastReq \<Rightarrow> 'e + bytes) \<Rightarrow>
   ('ctx RequestPayload \<Rightarrow> 'c \<Rightarrow> ('e + ('o::zero) TxResponse) \<times> 'c) \<Rightarrow> 'ctx \<Rightarrow> 'tx \<Rightarrow> string \<Rightarrow>
   ('c, 'ctx, 'a) world \<Rightarrow> ('o TxResponse \<times> 'e error option) \<times> ('c, 'ctx, 'a) world" where
  "BroadcastTx marshal rj ctx tx mode w =
     (let req = \<lparr>Tx = tx, Mode = mode\<rparr>
      in case marshal req of
           Inl err \<Rightarrow> ((TxResponse_zero, Some (Wrap err ''marshal request body'')), w)
         | Inr rawPayloadBody \<Rightarrow>
             (let payload = \<lparr>Context = ctx, Method = MethodPost, Path = ''/txs'',
                             Query = None, Body = Some rawPayloadBody\<rparr>
              in case RequestJSON rj payload w of
                   (Inl err, w1) \<Rightarrow> ((TxResponse_zero, Some (Wrap err ''request json'')), w1)
                 | (Inr body, w1) \<Rightarrow>
                     (let w2 = time_Sleep (1 * Second) w1
                      in if Code body \<noteq> CodeTypeOK
                         then ((body, Some (New (RawLog body))), w2)
                         else ((body, None), w2))))"

definition EstimateFee ::
  "((('coins::zero), 'dc, 'msg) EstimateFeeReq \<Rightarrow> 'e + bytes) \<Rightarrow>
   ('ctx RequestPayload \<Rightarrow> 'c \<Rightarrow> ('e + ('fee::zero) EstimateFeeBody) \<times> 'c) \<Rightarrow> 'ctx \<Rightarrow> string \<Rightarrow>
   ('fee, 'msg) StdSignMsg \<Rightarrow> string \<Rightarrow> 'dc \<Rightarrow>
   ('c, 'ctx, 'a) world \<Rightarrow> ('fee \<times> 'e error option) \<times> ('c, 'ctx, 'a) world" where
  "EstimateFee marshal rj ctx from' msg gasAdjustment gasPrices w =
     (let req = \<lparr>BaseReq = \<lparr>From = from', Memo = msg_Memo msg, ChainID = msg_ChainID msg,
                              AccountNumber = msg_AccountNumber msg, Sequence = msg_Sequence msg,
                              Fees = 0, GasPrices = gasPrices, Gas = ''auto'',
                              GasAdjustment = gasAdjustment, Simulate = False\<rparr>,
                  Msgs = msg_Msgs msg\<rparr>
      in case marshal req of
           Inl err \<Rightarrow> ((0, Some (Wrap err ''marshal request body'')), w)
         | Inr rawPayloadBody \<Rightarrow>
             (let payload = \<lparr>Context = ctx, Method = MethodPost, Path = ''/txs/estimate_fee'',
                             Query = None, Body = Some rawPayloadBody\<rparr>
              in case RequestJSON rj payload w of
                   (Inl err, w1) \<Rightarrow> ((0, Some (Wrap err ''request json'')), w1)
                 | (Inr body, w1) \<Rightarrow> ((Fee (Result body), None), w1)))"

subsection \<open>Observations and sample collaborators\<close>

text \<open>The payloads handed to the client, in order, among the events of a trace.\<close>

fun requests :: "'ctx event list \<Rightarrow> 'ctx RequestPayload list" where
  "requests [] = []"
| "requests (Request p # es) = p # requests es"
| "requests (Sleep d # es) = requests es"

text \<open>
  A world with no event yet, a codec that encodes every request as \<open>{}\<close>, one that shows
  the mode of a broadcast request, a rendering of the values that are neither integers nor
  strings, a client that answers every request with a given body, and one that fails every
  request. The state of these clients counts the calls made.
\<close>

definition ex_world :: "(nat, unit, unit) world" where
  "ex_world = \<lparr>client = 0, qmaps = (\<lambda>a. Map.empty), trace = []\<rparr>"

text \<open>The same world with a query filter of one entry at address 1.\<close>

definition ex_world_q :: "(nat, unit, unit) world" where
  "ex_world_q = \<lparr>client = 0, qmaps = (\<lambda>a. if a = 1 then [''tx.height'' \<mapsto> Str ''5''] else Map.empty),
                 trace = []\<rparr>"

definition ex_marshal :: "'r \<Rightarrow> string + bytes" where
  "ex_marshal req = Inr ''{}''"

definition ex_respond :: "'b \<Rightarrow> unit RequestPayload \<Rightarrow> nat \<Rightarrow> (string + 'b) \<times> nat" where
  "ex_respond body payload c = (Inr body, Suc c)"

definition ex_marshal_mode :: "nat BroadcastReq \<Rightarrow> string + bytes" where
  "ex_marshal_mode req = Inr (''{mode:'' @ Mode req @ ''}'')"

text \<open>
  A sign message, and a codec for fee requests that accepts only gas \<open>auto\<close> without
  simulation and shows the other fields it was given.
\<close>

definition ex_msg :: "(nat, string) StdSignMsg" where
  "ex_msg = \<lparr>msg_ChainID = ''columbus-4'', msg_AccountNumber = 12, msg_Sequence = 3, msg_Fee = 0,
             msg_Msgs = [''send''], msg_Memo = ''hi''\<rparr>"

definition ex_marshal_fee :: "(nat, string, string) EstimateFeeReq \<Rightarrow> string + bytes" where
  "ex_marshal_fee req =
     (if Gas (BaseReq req) = ''auto'' \<and> \<not> Simulate (BaseReq req)
      then Inr (From (BaseReq req) @ '','' @ Memo (BaseReq req) @ '','' @ ChainID (BaseReq req) @ '','' @
                GasPrices (BaseReq req) @ '','' @ GasAdjustment (BaseReq req) @ '','' @ concat (Msgs req))
      else Inl ''unexpected'')"

text \<open>A codec that rejects every request, as amino does for a type that is not registered.\<close>

definition ex_marshal_reject :: "'r \<Rightarrow> string + bytes" where
  "ex_marshal_reject req = Inl ''unregistered concrete type''"

definition ex_fo :: "unit \<Rightarrow> string" where
  "ex_fo u = ''()''"

definition ex_refuse :: "unit RequestPayload \<Rightarrow> nat \<Rightarrow> (string + 'b) \<times> nat" where
  "ex_refuse payload c = (Inl ''connection refused'', Suc c)"

section \<open>Properties of the service\<close>

lemma requests_append: "requests (xs @ ys) = requests xs @ requests ys"
  by (induction xs rule: requests.induct) simp_all

lemma range_Sprintf_empty:
  "range_Sprintf fo m Map.empty = (\<lambda>k. map_option (Sprintf_v fo) (m k))"
  by (auto simp add: range_Sprintf_def fun_eq_iff split: option.splits)

text \<open>
  \<open>QueryTx\<close> when no assignment panics: the writes into the caller's map, then one call of
  the client.
\<close>

lemma QueryTx_no_panic:
  assumes "req_Query req \<noteq> None \<or> (Page req = None \<and> Limit req = None)"
  shows "QueryTx rj fo ctx req w =
    (let w2 = w\<lparr>qmaps := (case req_Query req of None \<Rightarrow> qmaps w
                  | Some a \<Rightarrow> (qmaps w)(a := qmaps w a
                        ++ (case Page req of None \<Rightarrow> Map.empty | Some p \<Rightarrow> [''page'' \<mapsto> Int64 p])
                        ++ (case Limit req of None \<Rightarrow> Map.empty | Some l \<Rightarrow> [''limit'' \<mapsto> Int64 l])))\<rparr>;
         payload = \<lparr>Context = ctx, Method = ''GET'', Path = ''/txs'',
                     Query = Some (\<lambda>k. map_option (Sprintf_v fo) (entries (req_Query req) w2 k)),
                     Body = None\<rparr>
     in case rj payload (client w) of
          (Inl err, c') \<Rightarrow> (Inr (QueryTxResponse_zero, Some (Wrap err ''request json'')),
                            w2\<lparr>client := c', trace := trace w @ [Request payload]\<rparr>)
        | (Inr body, c') \<Rightarrow> (Inr (body, None), w2\<lparr>client := c', trace := trace w @ [Request payload]\<rparr>))"
proof (cases "req_Query req")
  case None
  with assms show ?thesis
    by (simp add: QueryTx_def RequestJSON_def MethodGet_def Let_def range_Sprintf_empty
             split: prod.splits sum.splits)
next
  case (Some a)
  then show ?thesis
    by (cases "Page req"; cases "Limit req")
       (simp_all add: QueryTx_def RequestJSON_def MethodGet_def Let_def range_Sprintf_empty
                 split: prod.splits sum.splits)
qed

text \<open>\<open>QueryTx\<close> when an assignment panics: nothing has happened yet.\<close>

lemma QueryTx_panic:
  assumes "req_Query req = None" and "Page req \<noteq> None \<or> Limit req \<noteq> None"
  shows "QueryTx rj fo ctx req w = (Inl AssignmentToEntryInNilMap, w)"
  using assms by (cases "Page req") (auto simp add: QueryTx_def)

subsection \<open>The result-code check of BroadcastTx\<close>

text \<open>
  C1. When the request body was encoded and the client decoded a response \<open>body\<close>,
  \<open>BroadcastTx\<close> returns \<open>body\<close> and decides the error by the one comparison of
  \<open>body.Code\<close> with \<open>CodeTypeOK\<close>, which is zero: no error for code zero, and otherwise
  the error \<open>errors.New(body.RawLog)\<close>, whose message is the raw log.
\<close>

theorem BroadcastTx_status_check:
  assumes "marshal \<lparr>Tx = tx, Mode = mode\<rparr> = Inr raw"
    and "rj \<lparr>Context = ctx, Method = MethodPost, Path = ''/txs'', Query = None, Body = Some raw\<rparr>
            (client w) = (Inr body, c')"
  shows "fst (BroadcastTx marshal rj ctx tx mode w) =
           (body, if Code body = 0 then None else Some (New (RawLog body)))
         \<and> Error cause (New (RawLog body)) = RawLog body \<and> CodeTypeOK = 0"
  using assms by (simp add: BroadcastTx_def RequestJSON_def CodeTypeOK_def)

theorem BroadcastTx_status_check_witness:
  "ex_marshal \<lparr>Tx = (7::nat), Mode = ''block''\<rparr> = Inr ''{}''
   \<and> ex_respond \<lparr>Code = 5, RawLog = ''out of gas'', Others = (0::nat)\<rparr>
        \<lparr>Context = (), Method = MethodPost, Path = ''/txs'', Query = None, Body = Some ''{}''\<rparr>
        (client ex_world) = (Inr \<lparr>Code = 5, RawLog = ''out of gas'', Others = 0\<rparr>, 1)
   \<and> fst (BroadcastTx ex_marshal (ex_respond \<lparr>Code = 5, RawLog = ''out of gas'', Others = (0::nat)\<rparr>)
             () (7::nat) ''block'' ex_world) =
        (\<lparr>Code = 5, RawLog = ''out of gas'', Others = 0\<rparr>, Some (New ''out of gas''))
   \<and> ex_respond \<lparr>Code = 0, RawLog = ''[]'', Others = (0::nat)\<rparr>
        \<lparr>Context = (), Method = MethodPost, Path = ''/txs'', Query = None, Body = Some ''{}''\<rparr>
        (client ex_world) = (Inr \<lparr>Code = 0, RawLog = ''[]'', Others = 0\<rparr>, 1)
   \<and> fst (BroadcastTx ex_marshal (ex_respond \<lparr>Code = 0, RawLog = ''[]'', Others = (0::nat)\<rparr>)
             () (7::nat) ''block'' ex_world) =
        (\<lparr>Code = 0, RawLog = ''[]'', Others = 0\<rparr>, None :: string error option)"
  using BroadcastTx_status_check [where marshal = ex_marshal and tx = "7::nat" and mode = "''block''"
      and raw = "''{}''" and ctx = "()" and w = ex_world and c' = 1
      and rj = "ex_respond \<lparr>Code = 5, RawLog = ''out of gas'', Others = (0::nat)\<rparr>"
      and body = "\<lparr>Code = 5, RawLog = ''out of gas'', Others = (0::nat)\<rparr>"]
    BroadcastTx_status_check [where marshal = ex_marshal and tx = "7::nat" and mode = "''block''"
      and raw = "''{}''" and ctx = "()" and w = ex_world and c' = 1
      and rj = "ex_respond \<lparr>Code = 0, RawLog = ''[]'', Others = (0::nat)\<rparr>"
      and body = "\<lparr>Code = 0, RawLog = ''[]'', Others = (0::nat)\<rparr>"]
  by (simp add: ex_marshal_def ex_respond_def ex_world_def)

subsection \<open>The requests the methods build\<close>

text \<open>
  C2. For every transaction hash, \<open>GetTxByHash\<close> hands the client exactly one payload: a
  GET whose path is \<open>/txs/\<close> followed by the hash, with no query parameters and no body.
  When the client succeeds, the method returns the body the client decoded, unchanged, and
  no error.
\<close>

theorem GetTxByHash_request:
  "(let payload = \<lparr>Context = ctx, Method = ''GET'', Path = ''/txs/'' @ txHash,
                    Query = None, Body = None\<rparr>
    in trace (snd (GetTxByHash rj ctx txHash w)) = trace w @ [Request payload]
       \<and> (\<forall>body c'. rj payload (client w) = (Inr body, c') \<longrightarrow>
            fst (GetTxByHash rj ctx txHash w) = (body, None)))"
  by (simp add: GetTxByHash_def RequestJSON_def MethodGet_def Let_def split: prod.splits sum.splits)

theorem GetTxByHash_request_witness:
  "ex_respond \<lparr>Code = 0, RawLog = ''[]'', Others = (3::nat)\<rparr>
      \<lparr>Context = (), Method = ''GET'', Path = ''/txs/AB12'', Query = None, Body = None\<rparr>
      (client ex_world) = (Inr \<lparr>Code = 0, RawLog = ''[]'', Others = 3\<rparr>, 1)
   \<and> trace (snd (GetTxByHash (ex_respond \<lparr>Code = 0, RawLog = ''[]'', Others = (3::nat)\<rparr>) () ''AB12'' ex_world))
       = [Request \<lparr>Context = (), Method = ''GET'', Path = ''/txs/AB12'', Query = None, Body = None\<rparr>]
   \<and> fst (GetTxByHash (ex_respond \<lparr>Code = 0, RawLog = ''[]'', Others = (3::nat)\<rparr>) () ''AB12'' ex_world)
       = (\<lparr>Code = 0, RawLog = ''[]'', Others = 3\<rparr>, None :: string error option)"
  using GetTxByHash_request [where rj = "ex_respond \<lparr>Code = 0, RawLog = ''[]'', Others = (3::nat)\<rparr>"
      and ctx = "()" and txHash = "''AB12''" and w = ex_world]
  by (simp add: ex_respond_def ex_world_def)

text \<open>
  C4, amended. For every transaction and broadcast mode whose broadcast request (the
  transaction and the mode string) the codec encodes, \<open>BroadcastTx\<close> hands the client
  exactly one payload: a POST to \<open>/txs\<close> whose body is that encoding, so the mode the
  caller chose reaches the node in the body.

  The claim as stated, for every transaction and mode, fails: when the codec rejects the
  request, \<open>BroadcastTx\<close> returns the wrapped codec error before it builds a payload, and
  the client is never called.
\<close>

theorem BroadcastTx_request:
  assumes "marshal \<lparr>Tx = tx, Mode = mode\<rparr> = Inr raw"
  shows "requests (trace (snd (BroadcastTx marshal rj ctx tx mode w))) =
           requests (trace w) @
           [\<lparr>Context = ctx, Method = ''POST'', Path = ''/txs'', Query = None, Body = Some raw\<rparr>]"
  using assms
  by (simp add: BroadcastTx_def RequestJSON_def time_Sleep_def MethodPost_def Let_def requests_append
           split: prod.splits sum.splits)

theorem BroadcastTx_request_witness:
  "ex_marshal_mode \<lparr>Tx = 7, Mode = ''block''\<rparr> = Inr ''{mode:block}''
   \<and> requests (trace (snd (BroadcastTx ex_marshal_mode
         (ex_respond \<lparr>Code = 0, RawLog = ''[]'', Others = (0::nat)\<rparr>) () 7 ''block'' ex_world))) =
       [\<lparr>Context = (), Method = ''POST'', Path = ''/txs'', Query = None, Body = Some ''{mode:block}''\<rparr>]"
  using BroadcastTx_request [where marshal = ex_marshal_mode and tx = 7 and mode = "''block''"
      and raw = "''{mode:block}''" and ctx = "()" and w = ex_world
      and rj = "ex_respond \<lparr>Code = 0, RawLog = ''[]'', Others = (0::nat)\<rparr>"]
  by (simp add: ex_marshal_mode_def ex_world_def)

theorem BroadcastTx_request_counterexample:
  "fst (BroadcastTx ex_marshal_reject (ex_respond \<lparr>Code = 0, RawLog = ''[]'', Others = (0::nat)\<rparr>)
          () (7::nat) ''block'' ex_world) =
     (TxResponse_zero, Some (Wrap ''unregistered concrete type'' ''marshal request body''))
   \<and> requests (trace (snd (BroadcastTx ex_marshal_reject
          (ex_respond \<lparr>Code = 0, RawLog = ''[]'', Others = (0::nat)\<rparr>)
          () (7::nat) ''block'' ex_world))) = []
   \<and> client (snd (BroadcastTx ex_marshal_reject
          (ex_respond \<lparr>Code = 0, RawLog = ''[]'', Others = (0::nat)\<rparr>)
          () (7::nat) ''block'' ex_world)) = 0"
  by (simp add: BroadcastTx_def ex_marshal_reject_def ex_world_def)

text \<open>
  C3, amended. For every request whose \<open>Query\<close> map is not nil, or whose \<open>Page\<close> and
  \<open>Limit\<close> are both nil, \<open>QueryTx\<close> hands the client exactly one payload: a GET to
  \<open>/txs\<close> with no body, whose query parameters are the entries of the request's filter,
  with \<open>page\<close> and \<open>limit\<close> set (replacing an entry of that key) when the pointer is
  not nil, each value formatted with \<open>%v\<close>. When the client succeeds, the method returns
  the body the client decoded, unchanged, and no error.

  The claim as stated, for every request, fails: with a nil \<open>Query\<close> and a page, the first
  assignment panics and no request is built.
\<close>

theorem QueryTx_request:
  assumes "req_Query req \<noteq> None \<or> (Page req = None \<and> Limit req = None)"
  shows "(let params = entries (req_Query req) w
                 ++ (case Page req of None \<Rightarrow> Map.empty | Some p \<Rightarrow> [''page'' \<mapsto> Int64 p])
                 ++ (case Limit req of None \<Rightarrow> Map.empty | Some l \<Rightarrow> [''limit'' \<mapsto> Int64 l]);
              payload = \<lparr>Context = ctx, Method = ''GET'', Path = ''/txs'',
                          Query = Some (\<lambda>k. map_option (Sprintf_v fo) (params k)), Body = None\<rparr>
          in trace (snd (QueryTx rj fo ctx req w)) = trace w @ [Request payload]
             \<and> (\<forall>body c'. rj payload (client w) = (Inr body, c') \<longrightarrow>
                  fst (QueryTx rj fo ctx req w) = Inr (body, None)))"
proof (cases "req_Query req")
  case None
  with assms show ?thesis
    by (simp add: QueryTx_no_panic [OF assms] Let_def split: prod.splits sum.splits)
next
  case (Some a)
  then show ?thesis
    by (simp add: QueryTx_no_panic [OF assms] Let_def split: prod.splits sum.splits)
qed

theorem QueryTx_request_witness:
  "req_Query \<lparr>Page = Some 2, Limit = Some 10, req_Query = Some 1\<rparr> = Some 1
   \<and> ex_respond (QueryTxResponse_zero :: nat QueryTxResponse)
        \<lparr>Context = (), Method = ''GET'', Path = ''/txs'',
         Query = Some [''tx.height'' \<mapsto> ''5'', ''page'' \<mapsto> ''2'', ''limit'' \<mapsto> ''10''], Body = None\<rparr>
        (client ex_world_q) = (Inr QueryTxResponse_zero, 1)
   \<and> trace (snd (QueryTx (ex_respond (QueryTxResponse_zero :: nat QueryTxResponse)) ex_fo ()
                  \<lparr>Page = Some 2, Limit = Some 10, req_Query = Some 1\<rparr> ex_world_q)) =
       [Request \<lparr>Context = (), Method = ''GET'', Path = ''/txs'',
                 Query = Some [''tx.height'' \<mapsto> ''5'', ''page'' \<mapsto> ''2'', ''limit'' \<mapsto> ''10''],
                 Body = None\<rparr>]
   \<and> fst (QueryTx (ex_respond (QueryTxResponse_zero :: nat QueryTxResponse)) ex_fo ()
                  \<lparr>Page = Some 2, Limit = Some 10, req_Query = Some 1\<rparr> ex_world_q) =
       Inr (QueryTxResponse_zero, None :: string error option)"
  using QueryTx_request [where req = "\<lparr>Page = Some 2, Limit = Some 10, req_Query = Some 1\<rparr>"
      and rj = "ex_respond (QueryTxResponse_zero :: nat QueryTxResponse)"
      and fo = ex_fo and ctx = "()" and w = ex_world_q]
  by (auto simp add: ex_respond_def ex_world_q_def fun_eq_iff FormatInt_def FormatUint.simps digit_def)

theorem QueryTx_request_counterexample:
  "fst (QueryTx (ex_respond (QueryTxResponse_zero :: nat QueryTxResponse)) ex_fo ()
          \<lparr>Page = Some 2, Limit = None, req_Query = None\<rparr> ex_world) = Inl AssignmentToEntryInNilMap
   \<and> requests (trace (snd (QueryTx (ex_respond (QueryTxResponse_zero :: nat QueryTxResponse)) ex_fo ()
          \<lparr>Page = Some 2, Limit = None, req_Query = None\<rparr> ex_world))) = []"
  by (simp add: QueryTx_def ex_world_def)

text \<open>
  C5, amended. For every input whose request the codec encodes (the request made of the
  base request, with the caller's from-address, the sign message's memo, chain id, account
  number and sequence, the given gas prices and gas adjustment, gas \<open>auto\<close>, simulate
  false and no fees, and of the sign message's messages), \<open>EstimateFee\<close> hands the
  client exactly one payload: a POST to \<open>/txs/estimate_fee\<close> whose body is that encoding.
  When the client succeeds, the method returns the fee under the result field of the decoded
  body, and no error.

  The claim as stated, for every input, fails: when the codec rejects the request,
  \<open>EstimateFee\<close> returns the wrapped codec error before it builds a payload, and the
  client is never called.
\<close>

theorem EstimateFee_request:
  assumes "marshal \<lparr>BaseReq = \<lparr>From = from', Memo = msg_Memo msg, ChainID = msg_ChainID msg,
                                 AccountNumber = msg_AccountNumber msg, Sequence = msg_Sequence msg,
                                 Fees = 0, GasPrices = gasPrices, Gas = ''auto'',
                                 GasAdjustment = gasAdjustment, Simulate = False\<rparr>,
                     Msgs = msg_Msgs msg\<rparr> = Inr raw"
  shows "(let payload = \<lparr>Context = ctx, Method = ''POST'', Path = ''/txs/estimate_fee'',
                          Query = None, Body = Some raw\<rparr>
          in trace (snd (EstimateFee marshal rj ctx from' msg gasAdjustment gasPrices w)) =
               trace w @ [Request payload]
             \<and> (\<forall>body c'. rj payload (client w) = (Inr body, c') \<longrightarrow>
                  fst (EstimateFee marshal rj ctx from' msg gasAdjustment gasPrices w) =
                    (Fee (Result body), None)))"
  using assms
  by (simp add: EstimateFee_def RequestJSON_def MethodPost_def Let_def split: prod.splits sum.splits)

theorem EstimateFee_request_witness:
  "ex_marshal_fee \<lparr>BaseReq = \<lparr>From = ''terra1x'', Memo = msg_Memo ex_msg, ChainID = msg_ChainID ex_msg,
                               AccountNumber = msg_AccountNumber ex_msg, Sequence = msg_Sequence ex_msg,
                               Fees = 0, GasPrices = ''0.15uluna'', Gas = ''auto'',
                               GasAdjustment = ''1.4'', Simulate = False\<rparr>,
                   Msgs = msg_Msgs ex_msg\<rparr> = Inr ''terra1x,hi,columbus-4,0.15uluna,1.4,send''
   \<and> ex_respond \<lparr>Height = ''100'', Result = \<lparr>Fee = (42::nat)\<rparr>\<rparr>
        \<lparr>Context = (), Method = ''POST'', Path = ''/txs/estimate_fee'', Query = None,
         Body = Some ''terra1x,hi,columbus-4,0.15uluna,1.4,send''\<rparr>
        (client ex_world) = (Inr \<lparr>Height = ''100'', Result = \<lparr>Fee = 42\<rparr>\<rparr>, 1)
   \<and> trace (snd (EstimateFee ex_marshal_fee (ex_respond \<lparr>Height = ''100'', Result = \<lparr>Fee = (42::nat)\<rparr>\<rparr>)
                   () ''terra1x'' ex_msg ''1.4'' ''0.15uluna'' ex_world)) =
       [Request \<lparr>Context = (), Method = ''POST'', Path = ''/txs/estimate_fee'', Query = None,
                 Body = Some ''terra1x,hi,columbus-4,0.15uluna,1.4,send''\<rparr>]
   \<and> fst (EstimateFee ex_marshal_fee (ex_respond \<lparr>Height = ''100'', Result = \<lparr>Fee = (42::nat)\<rparr>\<rparr>)
                   () ''terra1x'' ex_msg ''1.4'' ''0.15uluna'' ex_world) =
       (42, None :: string error option)"
  using EstimateFee_request [where marshal = ex_marshal_fee and from' = "''terra1x''" and msg = ex_msg
      and gasPrices = "''0.15uluna''" and gasAdjustment = "''1.4''"
      and raw = "''terra1x,hi,columbus-4,0.15uluna,1.4,send''" and ctx = "()" and w = ex_world
      and rj = "ex_respond \<lparr>Height = ''100'', Result = \<lparr>Fee = (42::nat)\<rparr>\<rparr>"]
  by (simp add: ex_marshal_fee_def ex_msg_def ex_respond_def ex_world_def)

theorem EstimateFee_request_counterexample:
  "fst (EstimateFee (ex_marshal_reject :: (nat, string, string) EstimateFeeReq \<Rightarrow> string + bytes)
          (ex_respond \<lparr>Height = ''100'', Result = \<lparr>Fee = (42::nat)\<rparr>\<rparr>)
          () ''terra1x'' ex_msg ''1.4'' ''0.15uluna'' ex_world) =
     (0, Some (Wrap ''unregistered concrete type'' ''marshal request body''))
   \<and> requests (trace (snd (EstimateFee
          (ex_marshal_reject :: (nat, string, string) EstimateFeeReq \<Rightarrow> string + bytes)
          (ex_respond \<lparr>Height = ''100'', Result = \<lparr>Fee = (42::nat)\<rparr>\<rparr>)
          () ''terra1x'' ex_msg ''1.4'' ''0.15uluna'' ex_world))) = []
   \<and> client (snd (EstimateFee
          (ex_marshal_reject :: (nat, string, string) EstimateFeeReq \<Rightarrow> string + bytes)
          (ex_respond \<lparr>Height = ''100'', Result = \<lparr>Fee = (42::nat)\<rparr>\<rparr>)
          () ''terra1x'' ex_msg ''1.4'' ''0.15uluna'' ex_world)) = 0"
  by (simp add: EstimateFee_def ex_marshal_reject_def ex_world_def)

subsection \<open>Errors of the client\<close>

text \<open>
  C6. In each of the four methods, when the call of the client fails with an error \<open>e\<close>,
  the method returns the zero value of its result type together with
  \<open>errors.Wrap(e, "request json")\<close>; the failed call is the only event the method adds to
  the trace, and the client is left in the state that one call put it in, so nothing is
  retried. (For \<open>QueryTx\<close> the call is reached when no assignment panics, for
  \<open>BroadcastTx\<close> and \<open>EstimateFee\<close> when the codec encoded the request.)
\<close>

theorem client_error_wrapped:
  "(rjT \<lparr>Context = ctx, Method = ''GET'', Path = ''/txs/'' @ txHash, Query = None, Body = None\<rparr>
        (client w) = (Inl e, c') \<longrightarrow>
      fst (GetTxByHash rjT ctx txHash w) = (TxResponse_zero, Some (Wrap e ''request json''))
      \<and> trace (snd (GetTxByHash rjT ctx txHash w)) =
          trace w @ [Request \<lparr>Context = ctx, Method = ''GET'', Path = ''/txs/'' @ txHash,
                              Query = None, Body = None\<rparr>]
      \<and> client (snd (GetTxByHash rjT ctx txHash w)) = c')
   \<and> ((req_Query req \<noteq> None \<or> (Page req = None \<and> Limit req = None))
       \<and> rjQ \<lparr>Context = ctx, Method = ''GET'', Path = ''/txs'',
               Query = Some (\<lambda>k. map_option (Sprintf_v fo)
                 ((entries (req_Query req) w
                   ++ (case Page req of None \<Rightarrow> Map.empty | Some p \<Rightarrow> [''page'' \<mapsto> Int64 p])
                   ++ (case Limit req of None \<Rightarrow> Map.empty | Some l \<Rightarrow> [''limit'' \<mapsto> Int64 l])) k)),
               Body = None\<rparr>
        (client w) = (Inl e, c') \<longrightarrow>
      fst (QueryTx rjQ fo ctx req w) = Inr (QueryTxResponse_zero, Some (Wrap e ''request json''))
      \<and> trace (snd (QueryTx rjQ fo ctx req w)) =
          trace w @ [Request \<lparr>Context = ctx, Method = ''GET'', Path = ''/txs'',
               Query = Some (\<lambda>k. map_option (Sprintf_v fo)
                 ((entries (req_Query req) w
                   ++ (case Page req of None \<Rightarrow> Map.empty | Some p \<Rightarrow> [''page'' \<mapsto> Int64 p])
                   ++ (case Limit req of None \<Rightarrow> Map.empty | Some l \<Rightarrow> [''limit'' \<mapsto> Int64 l])) k)),
               Body = None\<rparr>]
      \<and> client (snd (QueryTx rjQ fo ctx req w)) = c')
   \<and> (marshalB \<lparr>Tx = tx, Mode = mode\<rparr> = Inr rawB
       \<and> rjT \<lparr>Context = ctx, Method = ''POST'', Path = ''/txs'', Query = None, Body = Some rawB\<rparr>
            (client w) = (Inl e, c') \<longrightarrow>
      fst (BroadcastTx marshalB rjT ctx tx mode w) = (TxResponse_zero, Some (Wrap e ''request json''))
      \<and> trace (snd (BroadcastTx marshalB rjT ctx tx mode w)) =
          trace w @ [Request \<lparr>Context = ctx, Method = ''POST'', Path = ''/txs'', Query = None,
                              Body = Some rawB\<rparr>]
      \<and> client (snd (BroadcastTx marshalB rjT ctx tx mode w)) = c')
   \<and> (marshalE \<lparr>BaseReq = \<lparr>From = from', Memo = msg_Memo msg, ChainID = msg_ChainID msg,
                              AccountNumber = msg_AccountNumber msg, Sequence = msg_Sequence msg,
                              Fees = 0, GasPrices = gasPrices, Gas = ''auto'',
                              GasAdjustment = gasAdjustment, Simulate = False\<rparr>,
                  Msgs = msg_Msgs msg\<rparr> = Inr rawE
       \<and> rjE \<lparr>Context = ctx, Method = ''POST'', Path = ''/txs/estimate_fee'', Query = None,
               Body = Some rawE\<rparr> (client w) = (Inl e, c') \<longrightarrow>
      fst (EstimateFee marshalE rjE ctx from' msg gasAdjustment gasPrices w) =
          (0, Some (Wrap e ''request json''))
      \<and> trace (snd (EstimateFee marshalE rjE ctx from' msg gasAdjustment gasPrices w)) =
          trace w @ [Request \<lparr>Context = ctx, Method = ''POST'', Path = ''/txs/estimate_fee'',
                              Query = None, Body = Some rawE\<rparr>]
      \<and> client (snd (EstimateFee marshalE rjE ctx from' msg gasAdjustment gasPrices w)) = c')"
proof (intro conjI impI; (elim conjE)?)
  assume "rjT \<lparr>Context = ctx, Method = ''GET'', Path = ''/txs/'' @ txHash, Query = None, Body = None\<rparr>
        (client w) = (Inl e, c')"
  then show "fst (GetTxByHash rjT ctx txHash w) = (TxResponse_zero, Some (Wrap e ''request json''))"
    and "trace (snd (GetTxByHash rjT ctx txHash w)) =
          trace w @ [Request \<lparr>Context = ctx, Method = ''GET'', Path = ''/txs/'' @ txHash,
                              Query = None, Body = None\<rparr>]"
    and "client (snd (GetTxByHash rjT ctx txHash w)) = c'"
    by (simp_all add: GetTxByHash_def RequestJSON_def MethodGet_def)
next
  assume np: "req_Query req \<noteq> None \<or> (Page req = None \<and> Limit req = None)"
    and r: "rjQ \<lparr>Context = ctx, Method = ''GET'', Path = ''/txs'',
               Query = Some (\<lambda>k. map_option (Sprintf_v fo)
                 ((entries (req_Query req) w
                   ++ (case Page req of None \<Rightarrow> Map.empty | Some p \<Rightarrow> [''page'' \<mapsto> Int64 p])
                   ++ (case Limit req of None \<Rightarrow> Map.empty | Some l \<Rightarrow> [''limit'' \<mapsto> Int64 l])) k)),
               Body = None\<rparr>
        (client w) = (Inl e, c')"
  then show "fst (QueryTx rjQ fo ctx req w) = Inr (QueryTxResponse_zero, Some (Wrap e ''request json''))"
    and "trace (snd (QueryTx rjQ fo ctx req w)) =
          trace w @ [Request \<lparr>Context = ctx, Method = ''GET'', Path = ''/txs'',
               Query = Some (\<lambda>k. map_option (Sprintf_v fo)
                 ((entries (req_Query req) w
                   ++ (case Page req of None \<Rightarrow> Map.empty | Some p \<Rightarrow> [''page'' \<mapsto> Int64 p])
                   ++ (case Limit req of None \<Rightarrow> Map.empty | Some l \<Rightarrow> [''limit'' \<mapsto> Int64 l])) k)),
               Body = None\<rparr>]"
    and "client (snd (QueryTx rjQ fo ctx req w)) = c'"
    by (cases "req_Query req"; simp add: QueryTx_no_panic [OF np] Let_def)+
next
  assume "marshalB \<lparr>Tx = tx, Mode = mode\<rparr> = Inr rawB"
    and "rjT \<lparr>Context = ctx, Method = ''POST'', Path = ''/txs'', Query = None, Body = Some rawB\<rparr>
            (client w) = (Inl e, c')"
  then show "fst (BroadcastTx marshalB rjT ctx tx mode w) = (TxResponse_zero, Some (Wrap e ''request json''))"
    and "trace (snd (BroadcastTx marshalB rjT ctx tx mode w)) =
          trace w @ [Request \<lparr>Context = ctx, Method = ''POST'', Path = ''/txs'', Query = None,
                              Body = Some rawB\<rparr>]"
    and "client (snd (BroadcastTx marshalB rjT ctx tx mode w)) = c'"
    by (simp_all add: BroadcastTx_def RequestJSON_def MethodPost_def)
next
  assume "marshalE \<lparr>BaseReq = \<lparr>From = from', Memo = msg_Memo msg, ChainID = msg_ChainID msg,
                              AccountNumber = msg_AccountNumber msg, Sequence = msg_Sequence msg,
                              Fees = 0, GasPrices = gasPrices, Gas = ''auto'',
                              GasAdjustment = gasAdjustment, Simulate = False\<rparr>,
                  Msgs = msg_Msgs msg\<rparr> = Inr rawE"
    and "rjE \<lparr>Context = ctx, Method = ''POST'', Path = ''/txs/estimate_fee'', Query = None,
               Body = Some rawE\<rparr> (client w) = (Inl e, c')"
  then show "fst (EstimateFee marshalE rjE ctx from' msg gasAdjustment gasPrices w) =
          (0, Some (Wrap e ''request json''))"
    and "trace (snd (EstimateFee marshalE rjE ctx from' msg gasAdjustment gasPrices w)) =
          trace w @ [Request \<lparr>Context = ctx, Method = ''POST'', Path = ''/txs/estimate_fee'',
                              Query = None, Body = Some rawE\<rparr>]"
    and "client (snd (EstimateFee marshalE rjE ctx from' msg gasAdjustment gasPrices w)) = c'"
    by (simp_all add: EstimateFee_def RequestJSON_def MethodPost_def)
qed


theorem client_error_wrapped_witness:
  "ex_refuse \<lparr>Context = (), Method = ''GET'', Path = ''/txs/AB12'', Query = None, Body = None\<rparr>
      (client ex_world) = (Inl ''connection refused'' :: string + nat TxResponse, 1)
   \<and> fst (GetTxByHash ex_refuse () ''AB12'' ex_world) =
       (TxResponse_zero :: nat TxResponse, Some (Wrap ''connection refused'' ''request json''))
   \<and> trace (snd (GetTxByHash (ex_refuse :: _ \<Rightarrow> _ \<Rightarrow> (string + nat TxResponse) \<times> nat) () ''AB12'' ex_world)) =
       [Request \<lparr>Context = (), Method = ''GET'', Path = ''/txs/AB12'', Query = None, Body = None\<rparr>]
   \<and> client (snd (GetTxByHash (ex_refuse :: _ \<Rightarrow> _ \<Rightarrow> (string + nat TxResponse) \<times> nat) () ''AB12'' ex_world)) = 1
   \<and> fst (QueryTx ex_refuse ex_fo () \<lparr>Page = None, Limit = Some 10, req_Query = Some 1\<rparr> ex_world_q) =
       Inr (QueryTxResponse_zero :: nat QueryTxResponse, Some (Wrap ''connection refused'' ''request json''))
   \<and> requests (trace (snd (QueryTx (ex_refuse :: _ \<Rightarrow> _ \<Rightarrow> (string + nat QueryTxResponse) \<times> nat) ex_fo ()
         \<lparr>Page = None, Limit = Some 10, req_Query = Some 1\<rparr> ex_world_q))) =
       [\<lparr>Context = (), Method = ''GET'', Path = ''/txs'',
         Query = Some [''tx.height'' \<mapsto> ''5'', ''limit'' \<mapsto> ''10''], Body = None\<rparr>]
   \<and> ex_marshal \<lparr>Tx = (7::nat), Mode = ''sync''\<rparr> = Inr ''{}''
   \<and> fst (BroadcastTx ex_marshal ex_refuse () (7::nat) ''sync'' ex_world) =
       (TxResponse_zero :: nat TxResponse, Some (Wrap ''connection refused'' ''request json''))
   \<and> trace (snd (BroadcastTx ex_marshal (ex_refuse :: _ \<Rightarrow> _ \<Rightarrow> (string + nat TxResponse) \<times> nat)
         () (7::nat) ''sync'' ex_world)) =
       [Request \<lparr>Context = (), Method = ''POST'', Path = ''/txs'', Query = None, Body = Some ''{}''\<rparr>]
   \<and> fst (EstimateFee ex_marshal_fee ex_refuse () ''terra1x'' ex_msg ''1.4'' ''0.15uluna'' ex_world) =
       (0 :: nat, Some (Wrap ''connection refused'' ''request json''))
   \<and> trace (snd (EstimateFee ex_marshal_fee (ex_refuse :: _ \<Rightarrow> _ \<Rightarrow> (string + nat EstimateFeeBody) \<times> nat)
         () ''terra1x'' ex_msg ''1.4'' ''0.15uluna'' ex_world)) =
       [Request \<lparr>Context = (), Method = ''POST'', Path = ''/txs/estimate_fee'', Query = None,
                 Body = Some ''terra1x,hi,columbus-4,0.15uluna,1.4,send''\<rparr>]"
  using client_error_wrapped [where rjT = "ex_refuse :: _ \<Rightarrow> _ \<Rightarrow> (string + nat TxResponse) \<times> nat"
      and rjQ = "ex_refuse :: _ \<Rightarrow> _ \<Rightarrow> (string + nat QueryTxResponse) \<times> nat"
      and rjE = "ex_refuse :: _ \<Rightarrow> _ \<Rightarrow> (string + nat EstimateFeeBody) \<times> nat"
      and ctx = "()" and txHash = "''AB12''" and w = ex_world and e = "''connection refused''" and c' = 1
      and marshalB = ex_marshal and tx = "7::nat" and mode = "''sync''" and rawB = "''{}''"
      and marshalE = ex_marshal_fee and from' = "''terra1x''" and msg = ex_msg
      and gasAdjustment = "''1.4''" and gasPrices = "''0.15uluna''"
      and rawE = "''terra1x,hi,columbus-4,0.15uluna,1.4,send''"
      and req = "\<lparr>Page = None, Limit = None, req_Query = None\<rparr>" and fo = ex_fo]
    client_error_wrapped [where rjT = "ex_refuse :: _ \<Rightarrow> _ \<Rightarrow> (string + nat TxResponse) \<times> nat"
      and rjQ = "ex_refuse :: _ \<Rightarrow> _ \<Rightarrow> (string + nat QueryTxResponse) \<times> nat"
      and rjE = "ex_refuse :: _ \<Rightarrow> _ \<Rightarrow> (string + nat EstimateFeeBody) \<times> nat"
      and ctx = "()" and txHash = "''AB12''" and w = ex_world_q and e = "''connection refused''" and c' = 1
      and marshalB = ex_marshal and tx = "7::nat" and mode = "''sync''" and rawB = "''{}''"
      and marshalE = ex_marshal_fee and from' = "''terra1x''" and msg = ex_msg
      and gasAdjustment = "''1.4''" and gasPrices = "''0.15uluna''"
      and rawE = "''terra1x,hi,columbus-4,0.15uluna,1.4,send''"
      and req = "\<lparr>Page = None, Limit = Some 10, req_Query = Some 1\<rparr>" and fo = ex_fo]
  by (auto simp add: ex_refuse_def ex_world_def ex_world_q_def ex_marshal_def ex_marshal_fee_def ex_msg_def
        fun_eq_iff FormatInt_def FormatUint.simps digit_def)

subsection \<open>The pause of BroadcastTx\<close>

text \<open>
  C7. In every run of \<open>BroadcastTx\<close> whose request succeeds, whatever the code of the
  response, the method adds exactly two events to the trace: the call of the client, and
  after it \<open>time.Sleep\<close> of \<open>1 * time.Second\<close>, that is of 1000000000 nanoseconds; the
  method returns after both. The pause does not depend on the result code.
\<close>

theorem BroadcastTx_pause:
  assumes "marshal \<lparr>Tx = tx, Mode = mode\<rparr> = Inr raw"
    and "rj \<lparr>Context = ctx, Method = ''POST'', Path = ''/txs'', Query = None, Body = Some raw\<rparr>
            (client w) = (Inr body, c')"
  shows "trace (snd (BroadcastTx marshal rj ctx tx mode w)) =
           trace w @ [Request \<lparr>Context = ctx, Method = ''POST'', Path = ''/txs'', Query = None,
                               Body = Some raw\<rparr>,
                      Sleep 1000000000]"
  using assms
  by (simp add: BroadcastTx_def RequestJSON_def time_Sleep_def MethodPost_def Second_def Let_def)

theorem BroadcastTx_pause_witness:
  "ex_marshal \<lparr>Tx = (7::nat), Mode = ''block''\<rparr> = Inr ''{}''
   \<and> ex_respond \<lparr>Code = 5, RawLog = ''out of gas'', Others = (0::nat)\<rparr>
        \<lparr>Context = (), Method = ''POST'', Path = ''/txs'', Query = None, Body = Some ''{}''\<rparr>
        (client ex_world) = (Inr \<lparr>Code = 5, RawLog = ''out of gas'', Others = 0\<rparr>, 1)
   \<and> trace (snd (BroadcastTx ex_marshal (ex_respond \<lparr>Code = 5, RawLog = ''out of gas'', Others = (0::nat)\<rparr>)
             () (7::nat) ''block'' ex_world)) =
       [Request \<lparr>Context = (), Method = ''POST'', Path = ''/txs'', Query = None, Body = Some ''{}''\<rparr>,
        Sleep 1000000000]
   \<and> trace (snd (BroadcastTx ex_marshal (ex_respond \<lparr>Code = 0, RawLog = ''[]'', Others = (0::nat)\<rparr>)
             () (7::nat) ''block'' ex_world)) =
       [Request \<lparr>Context = (), Method = ''POST'', Path = ''/txs'', Query = None, Body = Some ''{}''\<rparr>,
        Sleep 1000000000]"
  using BroadcastTx_pause [where marshal = ex_marshal and tx = "7::nat" and mode = "''block''"
      and raw = "''{}''" and ctx = "()" and w = ex_world and c' = 1
      and rj = "ex_respond \<lparr>Code = 5, RawLog = ''out of gas'', Others = (0::nat)\<rparr>"
      and body = "\<lparr>Code = 5, RawLog = ''out of gas'', Others = (0::nat)\<rparr>"]
    BroadcastTx_pause [where marshal = ex_marshal and tx = "7::nat" and mode = "''block''"
      and raw = "''{}''" and ctx = "()" and w = ex_world and c' = 1
      and rj = "ex_respond \<lparr>Code = 0, RawLog = ''[]'', Others = (0::nat)\<rparr>"
      and body = "\<lparr>Code = 0, RawLog = ''[]'', Others = (0::nat)\<rparr>"]
  by (simp add: ex_marshal_def ex_respond_def ex_world_def)

subsection \<open>The caller's query map\<close>

text \<open>
  C8. For every request whose \<open>Query\<close> map is nil and whose \<open>Page\<close> or \<open>Limit\<close> is not
  nil, \<open>QueryTx\<close> panics on the assignment into the nil map and leaves the world as it
  was: no request is issued. These are the only requests on which it panics.
\<close>

theorem QueryTx_nil_map_panics:
  "(req_Query req = None \<and> (Page req \<noteq> None \<or> Limit req \<noteq> None) \<longrightarrow>
      QueryTx rj fo ctx req w = (Inl AssignmentToEntryInNilMap, w))
   \<and> ((\<exists>p. fst (QueryTx rj fo ctx req w) = Inl p) \<longleftrightarrow>
        req_Query req = None \<and> (Page req \<noteq> None \<or> Limit req \<noteq> None))"
proof (cases "req_Query req \<noteq> None \<or> (Page req = None \<and> Limit req = None)")
  case True
  then show ?thesis
    by (auto simp add: QueryTx_no_panic [OF True] Let_def split: prod.splits sum.splits)
next
  case False
  then have "QueryTx rj fo ctx req w = (Inl AssignmentToEntryInNilMap, w)"
    by (intro QueryTx_panic) auto
  with False show ?thesis by auto
qed

theorem QueryTx_nil_map_panics_witness:
  "req_Query \<lparr>Page = None, Limit = Some 10, req_Query = None\<rparr> = None
   \<and> Limit \<lparr>Page = None, Limit = Some 10, req_Query = None\<rparr> = Some 10
   \<and> QueryTx (ex_respond (QueryTxResponse_zero :: nat QueryTxResponse)) ex_fo ()
        \<lparr>Page = None, Limit = Some 10, req_Query = None\<rparr> ex_world = (Inl AssignmentToEntryInNilMap, ex_world)
   \<and> trace ex_world = []"
  using QueryTx_nil_map_panics [where req = "\<lparr>Page = None, Limit = Some 10, req_Query = None\<rparr>"
      and rj = "ex_respond (QueryTxResponse_zero :: nat QueryTxResponse)" and fo = ex_fo and ctx = "()"
      and w = ex_world]
  by (simp add: ex_world_def)

text \<open>
  C9. The store of maps the caller shares is, after \<open>QueryTx\<close>, the one before with
  \<open>page\<close> and \<open>limit\<close> written into the map the request's \<open>Query\<close> refers to (each
  when its pointer is not nil), whether the client succeeds or not: the write is in the
  caller's own map, the other keys of that map and all other maps are unchanged, and a nil
  \<open>Query\<close> leaves the whole store unchanged. With a map that is not nil \<open>QueryTx\<close>
  returns, so the caller sees the write. The request itself is passed by value and its
  pointers are only read.
\<close>

theorem QueryTx_writes_caller_map:
  "qmaps (snd (QueryTx rj fo ctx req w)) =
     (case req_Query req of
        None \<Rightarrow> qmaps w
      | Some a \<Rightarrow> (qmaps w)(a := qmaps w a
            ++ (case Page req of None \<Rightarrow> Map.empty | Some p \<Rightarrow> [''page'' \<mapsto> Int64 p])
            ++ (case Limit req of None \<Rightarrow> Map.empty | Some l \<Rightarrow> [''limit'' \<mapsto> Int64 l])))
   \<and> (req_Query req \<noteq> None \<longrightarrow> (\<exists>r. fst (QueryTx rj fo ctx req w) = Inr r))"
proof (cases "req_Query req \<noteq> None \<or> (Page req = None \<and> Limit req = None)")
  case True
  then show ?thesis
    by (simp add: QueryTx_no_panic [OF True] Let_def split: prod.splits sum.splits option.splits)
next
  case False
  then have "QueryTx rj fo ctx req w = (Inl AssignmentToEntryInNilMap, w)"
    by (intro QueryTx_panic) auto
  with False show ?thesis by auto
qed

theorem QueryTx_writes_caller_map_witness:
  "req_Query \<lparr>Page = Some 2, Limit = Some 10, req_Query = Some 1\<rparr> = Some 1
   \<and> fst (QueryTx (ex_refuse :: _ \<Rightarrow> _ \<Rightarrow> (string + nat QueryTxResponse) \<times> nat) ex_fo ()
        \<lparr>Page = Some 2, Limit = Some 10, req_Query = Some 1\<rparr> ex_world_q) =
       Inr (QueryTxResponse_zero, Some (Wrap ''connection refused'' ''request json''))
   \<and> qmaps (snd (QueryTx (ex_refuse :: _ \<Rightarrow> _ \<Rightarrow> (string + nat QueryTxResponse) \<times> nat) ex_fo ()
        \<lparr>Page = Some 2, Limit = Some 10, req_Query = Some 1\<rparr> ex_world_q)) 1 =
       [''tx.height'' \<mapsto> Str ''5'', ''page'' \<mapsto> Int64 2, ''limit'' \<mapsto> Int64 10]
   \<and> qmaps (snd (QueryTx (ex_refuse :: _ \<Rightarrow> _ \<Rightarrow> (string + nat QueryTxResponse) \<times> nat) ex_fo ()
        \<lparr>Page = Some 2, Limit = Some 10, req_Query = Some 1\<rparr> ex_world_q)) 2 = Map.empty
   \<and> qmaps ex_world_q 1 = [''tx.height'' \<mapsto> Str ''5'']"
proof -
  have r: "fst (QueryTx (ex_refuse :: _ \<Rightarrow> _ \<Rightarrow> (string + nat QueryTxResponse) \<times> nat) ex_fo ()
        \<lparr>Page = Some 2, Limit = Some 10, req_Query = Some 1\<rparr> ex_world_q) =
       Inr (QueryTxResponse_zero, Some (Wrap ''connection refused'' ''request json''))"
    by (simp add: QueryTx_def RequestJSON_def ex_refuse_def)
  show ?thesis
    using QueryTx_writes_caller_map [where req = "\<lparr>Page = Some 2, Limit = Some 10, req_Query = Some 1\<rparr>"
        and rj = "ex_refuse :: _ \<Rightarrow> _ \<Rightarrow> (string + nat QueryTxResponse) \<times> nat" and fo = ex_fo
        and ctx = "()" and w = ex_world_q] r
    by (auto simp add: ex_world_q_def fun_eq_iff)
qed

subsection \<open>What BroadcastTx returns beside an error\<close>

lemma Code_not_OK_not_zero: "Code body \<noteq> CodeTypeOK \<Longrightarrow> body \<noteq> TxResponse_zero"
  by (auto simp add: TxResponse_zero_def CodeTypeOK_def)

text \<open>
  C10. \<open>BroadcastTx\<close> returns the zero \<open>TxResponse\<close> with the error when the codec or
  the client fails, and the decoded body with the error when the result-code check fails;
  that body is not the zero value, its code being non-zero. So whenever \<open>BroadcastTx\<close>
  returns an error, the returned body differs from the zero value exactly when the node
  answered with a code that is not OK.
\<close>

theorem BroadcastTx_error_body:
  "(marshal \<lparr>Tx = tx, Mode = mode\<rparr> = Inl e \<longrightarrow>
      fst (BroadcastTx marshal rj ctx tx mode w) =
        (TxResponse_zero, Some (Wrap e ''marshal request body'')))
   \<and> (marshal \<lparr>Tx = tx, Mode = mode\<rparr> = Inr raw
       \<and> rj \<lparr>Context = ctx, Method = ''POST'', Path = ''/txs'', Query = None, Body = Some raw\<rparr>
            (client w) = (Inl e, c') \<longrightarrow>
      fst (BroadcastTx marshal rj ctx tx mode w) = (TxResponse_zero, Some (Wrap e ''request json'')))
   \<and> (marshal \<lparr>Tx = tx, Mode = mode\<rparr> = Inr raw
       \<and> rj \<lparr>Context = ctx, Method = ''POST'', Path = ''/txs'', Query = None, Body = Some raw\<rparr>
            (client w) = (Inr body, c')
       \<and> Code body \<noteq> CodeTypeOK \<longrightarrow>
      fst (BroadcastTx marshal rj ctx tx mode w) = (body, Some (New (RawLog body)))
      \<and> body \<noteq> TxResponse_zero)
   \<and> (snd (fst (BroadcastTx marshal rj ctx tx mode w)) \<noteq> None \<longrightarrow>
       (fst (fst (BroadcastTx marshal rj ctx tx mode w)) \<noteq> TxResponse_zero) =
       (\<exists>raw body c'. marshal \<lparr>Tx = tx, Mode = mode\<rparr> = Inr raw
          \<and> rj \<lparr>Context = ctx, Method = ''POST'', Path = ''/txs'', Query = None, Body = Some raw\<rparr>
               (client w) = (Inr body, c')
          \<and> Code body \<noteq> CodeTypeOK))"
proof -
  show ?thesis
  proof (cases "marshal \<lparr>Tx = tx, Mode = mode\<rparr>")
    case (Inl e')
    then show ?thesis
      by (simp add: BroadcastTx_def)
  next
    case (Inr raw')
    show ?thesis
    proof (cases "rj \<lparr>Context = ctx, Method = ''POST'', Path = ''/txs'', Query = None, Body = Some raw'\<rparr>
                    (client w)")
      case (Pair r c'')
      with Inr show ?thesis
        by (cases r)
           (auto simp add: BroadcastTx_def RequestJSON_def MethodPost_def Let_def dest: Code_not_OK_not_zero)
    qed
  qed
qed

theorem BroadcastTx_error_body_witness:
  "ex_marshal \<lparr>Tx = (7::nat), Mode = ''block''\<rparr> = Inr ''{}''
   \<and> ex_respond \<lparr>Code = 5, RawLog = ''out of gas'', Others = (0::nat)\<rparr>
        \<lparr>Context = (), Method = ''POST'', Path = ''/txs'', Query = None, Body = Some ''{}''\<rparr>
        (client ex_world) = (Inr \<lparr>Code = 5, RawLog = ''out of gas'', Others = 0\<rparr>, 1)
   \<and> Code \<lparr>Code = 5, RawLog = ''out of gas'', Others = (0::nat)\<rparr> \<noteq> CodeTypeOK
   \<and> fst (BroadcastTx ex_marshal (ex_respond \<lparr>Code = 5, RawLog = ''out of gas'', Others = (0::nat)\<rparr>)
             () (7::nat) ''block'' ex_world) =
        (\<lparr>Code = 5, RawLog = ''out of gas'', Others = 0\<rparr>, Some (New ''out of gas''))
   \<and> \<lparr>Code = 5, RawLog = ''out of gas'', Others = (0::nat)\<rparr> \<noteq> TxResponse_zero
   \<and> ex_refuse \<lparr>Context = (), Method = ''POST'', Path = ''/txs'', Query = None, Body = Some ''{}''\<rparr>
        (client ex_world) = (Inl ''connection refused'' :: string + nat TxResponse, 1)
   \<and> fst (BroadcastTx ex_marshal ex_refuse () (7::nat) ''block'' ex_world) =
        (TxResponse_zero :: nat TxResponse, Some (Wrap ''connection refused'' ''request json''))"
  using BroadcastTx_error_body [where marshal = ex_marshal and tx = "7::nat" and mode = "''block''"
      and raw = "''{}''" and ctx = "()" and w = ex_world and c' = 1
      and rj = "ex_respond \<lparr>Code = 5, RawLog = ''out of gas'', Others = (0::nat)\<rparr>"
      and body = "\<lparr>Code = 5, RawLog = ''out of gas'', Others = (0::nat)\<rparr>"]
    BroadcastTx_error_body [where marshal = ex_marshal and tx = "7::nat" and mode = "''block''"
      and raw = "''{}''" and ctx = "()" and w = ex_world and c' = 1 and e = "''connection refused''"
      and rj = "ex_refuse :: _ \<Rightarrow> _ \<Rightarrow> (string + nat TxResponse) \<times> nat"]
  by (simp add: ex_marshal_def ex_respond_def ex_refuse_def ex_world_def CodeTypeOK_def)

end
